theory Spec2Isabelle
  imports Main "HOL-Library.AList"
begin

section \<open>JavaScript values\<close>

text \<open>
  The module is dynamically typed glue, so its arguments are modelled as JavaScript values.
  A plain object is the list of its own properties in insertion order; a read of a missing
  property yields \<open>undefined\<close>. Inherited (prototype) properties are outside the model.
  Numbers are represented by integer values and \<open>NaN\<close>: the module only ever observes
  whether a number is truthy. Formatter instances are objects with identity: a value
  \<open>JInstance r\<close> is the reference \<open>r\<close>, and two instances are the same object exactly
  when their references are equal.
\<close>

type_synonym addr = nat
type_synonym ref = nat

datatype ctor =
    DateTimeFormat
  | NumberFormat
  | PluralRules
  | IntlMessageFormat
  | RelativeTimeFormat
  | ListFormat
  | DisplayNames

datatype jsval =
    JUndefined
  | JNull
  | JBool bool
  | JNum int
  | JNaN
  | JStr string
  | JArr "jsval list"
  | JObj "(string \<times> jsval) list"
  | JInstance ref
  | JMemoized ctor addr
  | JFunction nat

text \<open>
  \<open>JMemoized c a\<close> is the function value of a memoized constructor: the closure that wraps
  the platform constructor \<open>c\<close> and caches in the store at address \<open>a\<close>. \<open>JFunction n\<close> is any
  other function value.
\<close>

fun truthy :: "jsval \<Rightarrow> bool" where
  "truthy JUndefined = False"
| "truthy JNull = False"
| "truthy (JBool b) = b"
| "truthy (JNum n) = (n \<noteq> 0)"
| "truthy JNaN = False"
| "truthy (JStr s) = (s \<noteq> [])"
| "truthy (JArr xs) = True"
| "truthy (JObj ps) = True"
| "truthy (JInstance r) = True"
| "truthy (JMemoized c a) = True"
| "truthy (JFunction n) = True"

text \<open>\<open>name in obj\<close> and \<open>obj[name]\<close> on the own properties of an object.\<close>

definition has_prop :: "(string \<times> jsval) list \<Rightarrow> string \<Rightarrow> bool" where
  "has_prop ps name = (name \<in> set (map fst ps))"

definition get_prop :: "(string \<times> jsval) list \<Rightarrow> string \<Rightarrow> jsval" where
  "get_prop ps name = (case map_of ps name of None \<Rightarrow> JUndefined | Some v \<Rightarrow> v)"

text \<open>
  A property read on a value. The declared types confine the positions where the module
  reads a property to plain objects or \<open>undefined\<close>; a primitive has no own property here.
\<close>

fun member :: "jsval \<Rightarrow> string \<Rightarrow> jsval" where
  "member (JObj ps) name = get_prop ps name"
| "member v name = JUndefined"

section \<open>filterProps\<close>


section \<open>invariantIntlContext\<close>

datatype js_exception = Error string

text \<open>
  Modelled from the spec: \<open>invariant\<close> of the package \<open>@formatjs/intl-utils\<close>, whose source is
  not part of this file. It fails immediately with an error carrying the given message when
  its condition is absent or falsy, and returns normally otherwise.
\<close>

definition invariant :: "jsval \<Rightarrow> string \<Rightarrow> js_exception + unit" where
  "invariant condition message = (if truthy condition then Inr () else Inl (Error message))"

definition intl_context_message :: string where
  "intl_context_message =
     ''[React Intl] Could not find required `intl` object. '' @
     ''<IntlProvider> needs to exist in the component ancestry.''"

text \<open>The parameter is optional: an omitted argument is \<open>JUndefined\<close>.\<close>

definition invariantIntlContext :: "jsval \<Rightarrow> js_exception + unit" where
  "invariantIntlContext intl = invariant intl intl_context_message"

section \<open>getNamedFormat\<close>

text \<open>
  Modelled from the spec: the class \<open>UnsupportedFormatterError\<close> of \<open>./error\<close>, an
  "unsupported formatter" error object built from a message.
\<close>

datatype intl_error = UnsupportedFormatterError string

text \<open>
  The error callback is an effectful function of one error argument: a transformer of the
  caller's state. The function returns the value it yields together with that state.
  Falling off the end of the function body returns \<open>undefined\<close>.
\<close>

definition getNamedFormat ::
  "jsval \<Rightarrow> string \<Rightarrow> string \<Rightarrow> (intl_error \<Rightarrow> 's \<Rightarrow> 's) \<Rightarrow> 's \<Rightarrow> jsval \<times> 's"
where
  "getNamedFormat formats type name onError s =
     (let formatType = (if truthy formats then member formats type else formats);
          format = (if truthy formatType then member formatType name else JUndefined)
      in if truthy format then (format, s)
         else (JUndefined,
               onError (UnsupportedFormatterError (''No '' @ type @ '' format named: '' @ name)) s))"

text \<open>A callback that records every error it is given, in order.\<close>

definition recording_onError :: "intl_error \<Rightarrow> intl_error list \<Rightarrow> intl_error list" where
  "recording_onError e log = log @ [e]"

section \<open>The cache container and the platform\<close>

text \<open>
  The seven stores of a cache container are mutable objects that closures share by
  reference, so they live in a heap of objects indexed by address. The world also holds the
  formatter instances constructed so far (an instance's reference is its position) and the
  log of every invocation of an underlying constructor, successful or not.
\<close>

record world =
  heap :: "addr \<Rightarrow> (string \<times> jsval) list"
  next_addr :: addr
  instances :: "(ctor \<times> jsval list) list"
  invocations :: "(ctor \<times> jsval list) list"

record IntlCache =
  dateTime :: addr
  number :: addr
  message :: addr
  relativeTime :: addr
  pluralRules :: addr
  list_store :: addr
  displayNames :: addr

text \<open>Evaluating the object literal \<open>{}\<close>: a fresh empty object.\<close>

definition new_object :: "world \<Rightarrow> addr \<times> world" where
  "new_object w =
     (next_addr w, w\<lparr>heap := (heap w)(next_addr w := []), next_addr := Suc (next_addr w)\<rparr>)"

definition createIntlCache :: "world \<Rightarrow> IntlCache \<times> world" where
  "createIntlCache w0 =
     (let (a1, w1) = new_object w0;
          (a2, w2) = new_object w1;
          (a3, w3) = new_object w2;
          (a4, w4) = new_object w3;
          (a5, w5) = new_object w4;
          (a6, w6) = new_object w5;
          (a7, w7) = new_object w6
      in (\<lparr>dateTime = a1, number = a2, message = a3, relativeTime = a4,
           pluralRules = a5, list_store = a6, displayNames = a7\<rparr>, w7))"

text \<open>
  Modelled from the spec: the constructors of the host platform's internationalization API
  and of the message-format library (\<open>new Intl.NumberFormat(...args)\<close> and the like), which
  are external to this file. The parameter \<open>platform\<close> says for which arguments a constructor
  throws, and what. A successful construction allocates a new instance; it does not touch the
  stores.
\<close>

definition construct ::
  "(ctor \<Rightarrow> jsval list \<Rightarrow> 'e option) \<Rightarrow> ctor \<Rightarrow> jsval list \<Rightarrow> world \<Rightarrow> ('e + jsval) \<times> world"
where
  "construct platform c args w =
     (let w1 = w\<lparr>invocations := invocations w @ [(c, args)]\<rparr>
      in case platform c args of
           Some e \<Rightarrow> (Inl e, w1)
         | None \<Rightarrow> (Inr (JInstance (length (instances w1))),
                     w1\<lparr>instances := instances w1 @ [(c, args)]\<rparr>))"

section \<open>createFastMemoizeCache\<close>

record cache_object =
  cache_has :: "string \<Rightarrow> world \<Rightarrow> bool"
  cache_get :: "string \<Rightarrow> world \<Rightarrow> jsval"
  cache_set :: "string \<Rightarrow> jsval \<Rightarrow> world \<Rightarrow> world"

record fast_memoize_cache =
  create :: "unit \<Rightarrow> cache_object"

definition createFastMemoizeCache :: "addr \<Rightarrow> fast_memoize_cache" where
  "createFastMemoizeCache store =
     \<lparr>create = (\<lambda>_.
        \<lparr>cache_has = (\<lambda>key w. has_prop (heap w store) key),
         cache_get = (\<lambda>key w. get_prop (heap w store) key),
         cache_set = (\<lambda>key v w.
            w\<lparr>heap := (heap w)(store := AList.update key v (heap w store))\<rparr>)\<rparr>)\<rparr>"

section \<open>The memoizer\<close>

text \<open>
  Modelled from the spec: \<open>memoizeIntl\<close>, the memoizer of the external package
  \<open>fast-memoize\<close> with its variadic strategy, whose source is not part of this file. The
  memoized function computes a cache key by serializing the whole argument list. On a cache
  hit (the key is present in the store) it returns the stored instance without constructing
  a new one. On a miss it invokes the real constructor with the given arguments, stores the
  new instance under the key and returns it; a failure of the constructor propagates. The
  serializer is the package's own and is a parameter here.
\<close>

definition memoizeIntl ::
  "(jsval list \<Rightarrow> string) \<Rightarrow> (jsval list \<Rightarrow> world \<Rightarrow> ('e + jsval) \<times> world) \<Rightarrow>
   fast_memoize_cache \<Rightarrow> jsval list \<Rightarrow> world \<Rightarrow> ('e + jsval) \<times> world"
where
  "memoizeIntl serializer fn cache args w =
     (let c = create cache ();
          cacheKey = serializer args
      in if cache_has c cacheKey w then (Inr (cache_get c cacheKey w), w)
         else (case fn args w of
                 (Inl e, w') \<Rightarrow> (Inl e, w')
               | (Inr v, w') \<Rightarrow> (Inr v, cache_set c cacheKey v w')))"

section \<open>createFormatters\<close>

text \<open>The \<open>i\<close>-th positional parameter of a call: \<open>undefined\<close> when the caller passed fewer.\<close>

definition arg :: "jsval list \<Rightarrow> nat \<Rightarrow> jsval" where
  "arg args i = (if i < length args then args ! i else JUndefined)"

text \<open>
  Object spread \<open>{...target_properties, ...source}\<close>: every own key of the source, in order,
  is written with the value read from the source. The declared type of the spread position
  is a plain object or \<open>undefined\<close>; a value that is not a plain object contributes no
  property here.
\<close>

definition spread :: "(string \<times> jsval) list \<Rightarrow> jsval \<Rightarrow> (string \<times> jsval) list" where
  "spread target source =
     (case source of
        JObj ps \<Rightarrow> foldl (\<lambda>acc k. AList.update k (get_prop ps k) acc) target (map fst ps)
      | _ \<Rightarrow> target)"

record 'e Formatters =
  getDateTimeFormat :: "jsval list \<Rightarrow> world \<Rightarrow> ('e + jsval) \<times> world"
  getNumberFormat :: "jsval list \<Rightarrow> world \<Rightarrow> ('e + jsval) \<times> world"
  getMessageFormat :: "jsval list \<Rightarrow> world \<Rightarrow> ('e + jsval) \<times> world"
  getRelativeTimeFormat :: "jsval list \<Rightarrow> world \<Rightarrow> ('e + jsval) \<times> world"
  getPluralRules :: "jsval list \<Rightarrow> world \<Rightarrow> ('e + jsval) \<times> world"
  getListFormat :: "jsval list \<Rightarrow> world \<Rightarrow> ('e + jsval) \<times> world"
  getDisplayNames :: "jsval list \<Rightarrow> world \<Rightarrow> ('e + jsval) \<times> world"

text \<open>
  The parameter \<open>cache\<close> defaults to \<open>createIntlCache()\<close> when it is omitted (\<open>None\<close>). The
  function values \<open>getNumberFormat\<close>, \<open>getDateTimeFormat\<close> and \<open>getPluralRules\<close> that the
  message formatter injects are the memoized closures over the same stores.
\<close>

definition createFormatters ::
  "(jsval list \<Rightarrow> string) \<Rightarrow> (ctor \<Rightarrow> jsval list \<Rightarrow> 'e option) \<Rightarrow>
   IntlCache option \<Rightarrow> world \<Rightarrow> 'e Formatters \<times> world"
where
  "createFormatters serializer platform cache_arg w0 =
     (let (cache, w) = (case cache_arg of None \<Rightarrow> createIntlCache w0 | Some c \<Rightarrow> (c, w0));
          getDateTimeFormat' =
            memoizeIntl serializer (\<lambda>args. construct platform DateTimeFormat args)
              (createFastMemoizeCache (dateTime cache));
          getNumberFormat' =
            memoizeIntl serializer (\<lambda>args. construct platform NumberFormat args)
              (createFastMemoizeCache (number cache));
          getPluralRules' =
            memoizeIntl serializer (\<lambda>args. construct platform PluralRules args)
              (createFastMemoizeCache (pluralRules cache))
      in (\<lparr>getDateTimeFormat = getDateTimeFormat',
           getNumberFormat = getNumberFormat',
           getMessageFormat =
             memoizeIntl serializer
               (\<lambda>args. construct platform IntlMessageFormat
                  [arg args 0, arg args 1, arg args 2,
                   JObj (spread
                     [(''formatters'', JObj
                        [(''getNumberFormat'', JMemoized NumberFormat (number cache)),
                         (''getDateTimeFormat'', JMemoized DateTimeFormat (dateTime cache)),
                         (''getPluralRules'', JMemoized PluralRules (pluralRules cache))])]
                     (if truthy (arg args 3) then arg args 3 else JObj []))])
               (createFastMemoizeCache (message cache)),
           getRelativeTimeFormat =
             memoizeIntl serializer (\<lambda>args. construct platform RelativeTimeFormat args)
               (createFastMemoizeCache (relativeTime cache)),
           getPluralRules = getPluralRules',
           getListFormat =
             memoizeIntl serializer (\<lambda>args. construct platform ListFormat args)
               (createFastMemoizeCache (list_store cache)),
           getDisplayNames =
             memoizeIntl serializer (\<lambda>args. construct platform DisplayNames args)
               (createFastMemoizeCache (displayNames cache))\<rparr>, w))"

section \<open>Vocabulary of the statements\<close>

text \<open>
  The memoized constructor that wraps a given platform constructor, and the store of the
  container it caches in.
\<close>

definition formatter ::
  "ctor \<Rightarrow> 'e Formatters \<Rightarrow> jsval list \<Rightarrow> world \<Rightarrow> ('e + jsval) \<times> world"
where
  "formatter c fs =
     (case c of
        DateTimeFormat \<Rightarrow> getDateTimeFormat fs
      | NumberFormat \<Rightarrow> getNumberFormat fs
      | PluralRules \<Rightarrow> getPluralRules fs
      | IntlMessageFormat \<Rightarrow> getMessageFormat fs
      | RelativeTimeFormat \<Rightarrow> getRelativeTimeFormat fs
      | ListFormat \<Rightarrow> getListFormat fs
      | DisplayNames \<Rightarrow> getDisplayNames fs)"

definition store_of :: "ctor \<Rightarrow> IntlCache \<Rightarrow> addr" where
  "store_of c cache =
     (case c of
        DateTimeFormat \<Rightarrow> dateTime cache
      | NumberFormat \<Rightarrow> number cache
      | PluralRules \<Rightarrow> pluralRules cache
      | IntlMessageFormat \<Rightarrow> message cache
      | RelativeTimeFormat \<Rightarrow> relativeTime cache
      | ListFormat \<Rightarrow> list_store cache
      | DisplayNames \<Rightarrow> displayNames cache)"

text \<open>The seven stores of a container, in the order of its fields.\<close>

definition stores :: "IntlCache \<Rightarrow> addr list" where
  "stores cache =
     [dateTime cache, number cache, message cache, relativeTime cache,
      pluralRules cache, list_store cache, displayNames cache]"

text \<open>The three memoized constructors that the message formatter injects.\<close>

definition injected_formatters :: "IntlCache \<Rightarrow> jsval" where
  "injected_formatters cache =
     JObj [(''getNumberFormat'', JMemoized NumberFormat (number cache)),
           (''getDateTimeFormat'', JMemoized DateTimeFormat (dateTime cache)),
           (''getPluralRules'', JMemoized PluralRules (pluralRules cache))]"

text \<open>
  The argument list that the wrapped function hands to the underlying constructor: the
  caller's own arguments, except for the message formatter, which passes its first three
  parameters and the options object it builds from the fourth.
\<close>

definition underlying_args :: "IntlCache \<Rightarrow> ctor \<Rightarrow> jsval list \<Rightarrow> jsval list" where
  "underlying_args cache c args =
     (if c = IntlMessageFormat
      then [arg args 0, arg args 1, arg args 2,
            JObj (spread [(''formatters'', injected_formatters cache)]
                    (if truthy (arg args 3) then arg args 3 else JObj []))]
      else args)"

text \<open>
  A store as the memoized constructors leave it: no key twice, no value twice, and every
  value an instance that has been constructed. A fresh store is like that, and every call of
  a memoized constructor keeps it so.
\<close>

fun known_instance :: "nat \<Rightarrow> jsval \<Rightarrow> bool" where
  "known_instance n (JInstance r) = (r < n)"
| "known_instance n v = False"

definition store_sound :: "world \<Rightarrow> addr \<Rightarrow> bool" where
  "store_sound w a =
     (distinct (map fst (heap w a)) \<and> distinct (map snd (heap w a)) \<and>
      list_all (known_instance (length (instances w))) (map snd (heap w a)))"

section \<open>Concrete inputs\<close>

text \<open>
  A world in which nothing has been allocated or constructed; a serializer that joins the
  string arguments; a platform that rejects the locale \<open>xx\<close>; the container and the
  formatters created first in the empty world; and the world after one earlier call of
  \<open>getNumberFormat('en')\<close>.
\<close>

definition empty_world :: world where
  "empty_world = \<lparr>heap = (\<lambda>a. []), next_addr = 0, instances = [], invocations = []\<rparr>"

definition example_serializer :: "jsval list \<Rightarrow> string" where
  "example_serializer args =
     concat (map (\<lambda>v. case v of JStr s \<Rightarrow> s @ '';'' | _ \<Rightarrow> ''?;'') args)"

definition example_platform :: "ctor \<Rightarrow> jsval list \<Rightarrow> string option" where
  "example_platform c args =
     (if arg args 0 = JStr ''xx'' then Some ''RangeError: Incorrect locale information provided''
      else None)"

definition example_cache :: IntlCache where
  "example_cache = fst (createIntlCache empty_world)"

definition example_world :: world where
  "example_world = snd (createIntlCache empty_world)"

definition example_formatters :: "string Formatters" where
  "example_formatters =
     fst (createFormatters example_serializer example_platform (Some example_cache) example_world)"

definition warm_world :: world where
  "warm_world = snd (getNumberFormat example_formatters [JStr ''en''] example_world)"

text \<open>A second container, created after the first, and the formatters over it.\<close>

definition second_cache :: IntlCache where
  "second_cache = fst (createIntlCache example_world)"

definition second_world :: world where
  "second_world = snd (createIntlCache example_world)"

definition second_formatters :: "string Formatters" where
  "second_formatters =
     fst (createFormatters example_serializer example_platform (Some second_cache) second_world)"

section \<open>Properties of objects\<close>


lemma has_prop_update: "has_prop (AList.update k v ps) k' \<longleftrightarrow> k' = k \<or> has_prop ps k'"
  by (auto simp: has_prop_def dom_update)

lemma get_prop_update:
  "get_prop (AList.update k v ps) k' = (if k' = k then v else get_prop ps k')"
  by (simp add: get_prop_def update_conv')

section \<open>Prop filtering\<close>






section \<open>Context-presence assertion\<close>

text \<open>
  Claim C8. \<open>invariantIntlContext\<close> throws its descriptive error exactly when its argument
  is falsy, as \<open>undefined\<close>, \<open>null\<close>, \<open>0\<close> and the empty string are, and returns
  normally for every truthy value.
\<close>

theorem invariantIntlContext_throws_iff_falsy:
  "(invariantIntlContext intl = Inl (Error intl_context_message)) = (\<not> truthy intl) \<and>
   (invariantIntlContext intl = Inr ()) = truthy intl"
  by (simp add: invariantIntlContext_def invariant_def)

theorem invariantIntlContext_throws_iff_falsy_witness:
  "invariantIntlContext JUndefined = Inl (Error intl_context_message) \<and>
   invariantIntlContext JNull = Inl (Error intl_context_message) \<and>
   invariantIntlContext (JNum 0) = Inl (Error intl_context_message) \<and>
   invariantIntlContext (JStr []) = Inl (Error intl_context_message) \<and>
   invariantIntlContext (JObj [(''locale'', JStr ''en'')]) = Inr ()"
  using invariantIntlContext_throws_iff_falsy [of JUndefined]
    invariantIntlContext_throws_iff_falsy [of JNull]
    invariantIntlContext_throws_iff_falsy [of "JNum 0"]
    invariantIntlContext_throws_iff_falsy [of "JStr []"]
    invariantIntlContext_throws_iff_falsy [of "JObj [(''locale'', JStr ''en'')]"]
  by simp

section \<open>Named-format lookup\<close>



text \<open>
  Claim C9. \<open>getNamedFormat\<close> decides presence by truthiness, not by key membership: when
  the kind and the name are both present in the table but the registered value is falsy, it
  invokes the error callback (once, with the same error as for a missing format) and
  returns \<open>undefined\<close>, not the registered value.
\<close>

theorem getNamedFormat_falsy_is_missing:
  fixes onError :: "intl_error \<Rightarrow> 's \<Rightarrow> 's"
  assumes "map_of table type = Some (JObj names)"
      and "map_of names name = Some v"
      and "\<not> truthy v"
  shows "getNamedFormat (JObj table) type name onError s =
           (JUndefined,
            onError (UnsupportedFormatterError (''No '' @ type @ '' format named: '' @ name)) s) \<and>
         getNamedFormat (JObj table) type name recording_onError [] =
           (JUndefined, [UnsupportedFormatterError (''No '' @ type @ '' format named: '' @ name)])"
  using assms by (simp add: getNamedFormat_def get_prop_def recording_onError_def)

theorem getNamedFormat_falsy_is_missing_witness:
  "getNamedFormat (JObj [(''number'', JObj [(''USD'', JNum 0)])]) ''number'' ''USD''
     recording_onError [] =
     (JUndefined, [UnsupportedFormatterError ''No number format named: USD'']) \<and>
   getNamedFormat (JObj [(''number'', JObj [(''USD'', JStr [])])]) ''number'' ''USD''
     recording_onError [] =
     (JUndefined, [UnsupportedFormatterError ''No number format named: USD'']) \<and>
   getNamedFormat (JObj [(''number'', JObj [(''USD'', JNull)])]) ''number'' ''USD''
     recording_onError [] =
     (JUndefined, [UnsupportedFormatterError ''No number format named: USD'']) \<and>
   getNamedFormat (JObj [(''number'', JObj [(''USD'', JUndefined)])]) ''number'' ''USD''
     recording_onError [] =
     (JUndefined, [UnsupportedFormatterError ''No number format named: USD''])"
  using
    getNamedFormat_falsy_is_missing
      [of "[(''number'', JObj [(''USD'', JNum 0)])]" "''number''" "[(''USD'', JNum 0)]"
        "''USD''" "JNum 0" recording_onError "[]"]
    getNamedFormat_falsy_is_missing
      [of "[(''number'', JObj [(''USD'', JStr [])])]" "''number''" "[(''USD'', JStr [])]"
        "''USD''" "JStr []" recording_onError "[]"]
    getNamedFormat_falsy_is_missing
      [of "[(''number'', JObj [(''USD'', JNull)])]" "''number''" "[(''USD'', JNull)]"
        "''USD''" JNull recording_onError "[]"]
    getNamedFormat_falsy_is_missing
      [of "[(''number'', JObj [(''USD'', JUndefined)])]" "''number''" "[(''USD'', JUndefined)]"
        "''USD''" JUndefined recording_onError "[]"]
  by (simp add: recording_onError_def)

section \<open>One call of a memoized constructor\<close>

text \<open>
  A call of a memoized constructor over the store at \<open>a\<close>, as a case distinction on the
  store and on the platform.
\<close>

lemma memoizeIntl_construct:
  "memoizeIntl serializer (\<lambda>args. construct platform c (g args)) (createFastMemoizeCache a) args w =
     (if has_prop (heap w a) (serializer args) then (Inr (get_prop (heap w a) (serializer args)), w)
      else (case platform c (g args) of
              Some e \<Rightarrow> (Inl e, w\<lparr>invocations := invocations w @ [(c, g args)]\<rparr>)
            | None \<Rightarrow>
                (Inr (JInstance (length (instances w))),
                 w\<lparr>heap := (heap w)(a := AList.update (serializer args)
                                            (JInstance (length (instances w))) (heap w a)),
                   instances := instances w @ [(c, g args)],
                   invocations := invocations w @ [(c, g args)]\<rparr>)))"
  by (simp add: memoizeIntl_def createFastMemoizeCache_def construct_def Let_def
      split: option.split)

lemma createFormatters_Some:
  "createFormatters serializer platform (Some cache) w0 = (fs, w0') \<Longrightarrow>
   w0' = w0 \<and>
   formatter c fs =
     memoizeIntl serializer (\<lambda>args. construct platform c (underlying_args cache c args))
       (createFastMemoizeCache (store_of c cache))"
  by (cases c)
    (auto simp: createFormatters_def Let_def formatter_def store_of_def underlying_args_def
      injected_formatters_def)

lemma formatter_call:
  assumes "createFormatters serializer platform (Some cache) w0 = (fs, w0')"
  shows "formatter c fs args w =
     (if has_prop (heap w (store_of c cache)) (serializer args)
      then (Inr (get_prop (heap w (store_of c cache)) (serializer args)), w)
      else (case platform c (underlying_args cache c args) of
              Some e \<Rightarrow>
                (Inl e, w\<lparr>invocations := invocations w @ [(c, underlying_args cache c args)]\<rparr>)
            | None \<Rightarrow>
                (Inr (JInstance (length (instances w))),
                 w\<lparr>heap := (heap w)(store_of c cache :=
                             AList.update (serializer args) (JInstance (length (instances w)))
                               (heap w (store_of c cache))),
                   instances := instances w @ [(c, underlying_args cache c args)],
                   invocations := invocations w @ [(c, underlying_args cache c args)]\<rparr>)))"
  using createFormatters_Some [OF assms, of c]
  by (simp only: memoizeIntl_construct)

lemma store_of_in_stores: "store_of c cache \<in> set (stores cache)"
  by (cases c) (simp_all add: store_of_def stores_def)

lemma store_of_distinct:
  "distinct (stores cache) \<Longrightarrow> c' \<noteq> c \<Longrightarrow> store_of c' cache \<noteq> store_of c cache"
  by (cases c; cases c') (auto simp: store_of_def stores_def)

lemma createIntlCache_stores:
  "stores (fst (createIntlCache w)) = map (\<lambda>i. next_addr w + i) [0, 1, 2, 3, 4, 5, 6]"
  by (simp add: createIntlCache_def new_object_def stores_def)

lemma createIntlCache_world:
  "heap (snd (createIntlCache w)) a =
     (if next_addr w \<le> a \<and> a < next_addr w + 7 then [] else heap w a)"
  "next_addr (snd (createIntlCache w)) = next_addr w + 7"
  "instances (snd (createIntlCache w)) = instances w"
  "invocations (snd (createIntlCache w)) = invocations w"
  by (auto simp: createIntlCache_def new_object_def)

lemma createIntlCache_store_range:
  "next_addr w \<le> store_of c (fst (createIntlCache w)) \<and>
   store_of c (fst (createIntlCache w)) < next_addr w + 7"
  using store_of_in_stores [of c "fst (createIntlCache w)"]
  unfolding createIntlCache_stores by auto





section \<open>Stores filled by the memoized constructors\<close>








lemma createIntlCache_sound:
  "store_sound (snd (createIntlCache w)) (store_of c (fst (createIntlCache w)))"
  using createIntlCache_store_range [of w c]
  by (simp add: store_sound_def createIntlCache_world)

section \<open>The concrete inputs, evaluated\<close>

lemma createFormatters_any_world:
  "createFormatters serializer platform (Some cache) w =
     (fst (createFormatters serializer platform (Some cache) w'), w)"
  by (simp add: createFormatters_def Let_def)

lemma example_cache_eq:
  "example_cache = \<lparr>dateTime = 0, number = 1, message = 2, relativeTime = 3,
                     pluralRules = 4, list_store = 5, displayNames = 6\<rparr>"
  by (simp add: example_cache_def createIntlCache_def new_object_def empty_world_def)

lemma example_world_eq:
  "heap example_world a = []" "next_addr example_world = 7"
  "instances example_world = []" "invocations example_world = []"
  by (simp_all add: example_world_def createIntlCache_world empty_world_def)

lemma second_cache_eq:
  "second_cache = \<lparr>dateTime = 7, number = 8, message = 9, relativeTime = 10,
                    pluralRules = 11, list_store = 12, displayNames = 13\<rparr>"
  by (simp add: second_cache_def createIntlCache_def new_object_def example_world_eq)

lemma second_world_eq:
  "heap second_world a = []" "next_addr second_world = 14"
  "instances second_world = []" "invocations second_world = []"
  by (simp_all add: second_world_def createIntlCache_world example_world_eq)

lemma example_create:
  "createFormatters example_serializer example_platform (Some example_cache) w =
     (example_formatters, w)"
  unfolding example_formatters_def by (rule createFormatters_any_world)

lemma second_create:
  "createFormatters example_serializer example_platform (Some second_cache) w =
     (second_formatters, w)"
  unfolding second_formatters_def by (rule createFormatters_any_world)

lemma example_keys:
  "example_serializer [JStr ''en''] = ''en;''"
  "example_serializer [JStr ''fr''] = ''fr;''"
  "example_serializer [JStr ''xx''] = ''xx;''"
  by (simp_all add: example_serializer_def)

lemma example_first_call:
  "formatter NumberFormat example_formatters [JStr ''en''] example_world =
     (Inr (JInstance 0), warm_world)"
proof -
  have "fst (formatter NumberFormat example_formatters [JStr ''en''] example_world) =
          Inr (JInstance 0)"
    unfolding formatter_call [OF example_create]
    by (simp add: example_world_eq has_prop_def example_platform_def underlying_args_def arg_def)
  moreover have "snd (formatter NumberFormat example_formatters [JStr ''en''] example_world) =
          warm_world"
    by (simp add: warm_world_def formatter_def)
  ultimately show ?thesis by (simp add: prod_eq_iff)
qed

lemma warm_world_record:
  "warm_world =
     example_world
       \<lparr>heap := (heap example_world)(1 := [(''en;'', JInstance 0)]),
        instances := [(NumberFormat, [JStr ''en''])],
        invocations := [(NumberFormat, [JStr ''en''])]\<rparr>"
  using example_first_call unfolding formatter_call [OF example_create]
  by (simp add: example_world_eq has_prop_def example_platform_def underlying_args_def arg_def
      example_keys store_of_def example_cache_eq)

lemma warm_world_eq:
  "heap warm_world a = (if a = 1 then [(''en;'', JInstance 0)] else [])"
  "next_addr warm_world = 7"
  "instances warm_world = [(NumberFormat, [JStr ''en''])]"
  "invocations warm_world = [(NumberFormat, [JStr ''en''])]"
  by (simp_all add: warm_world_record example_world_eq)

lemma warm_hit:
  "formatter NumberFormat example_formatters [JStr ''en''] warm_world =
     (Inr (JInstance 0), warm_world)"
  unfolding formatter_call [OF example_create]
  by (simp add: warm_world_eq has_prop_def get_prop_def example_keys store_of_def example_cache_eq)


lemma fr_call:
  "formatter NumberFormat example_formatters [JStr ''fr''] warm_world =
     (Inr (JInstance 1),
      warm_world
        \<lparr>heap := (heap warm_world)(1 := [(''en;'', JInstance 0), (''fr;'', JInstance 1)]),
         instances := [(NumberFormat, [JStr ''en'']), (NumberFormat, [JStr ''fr''])],
         invocations := [(NumberFormat, [JStr ''en'']), (NumberFormat, [JStr ''fr''])]\<rparr>)"
  unfolding formatter_call [OF example_create]
  by (simp add: warm_world_eq has_prop_def example_keys store_of_def example_cache_eq
      example_platform_def underlying_args_def arg_def)

lemma first_container_call:
  "formatter NumberFormat example_formatters [JStr ''en''] second_world =
     (Inr (JInstance 0),
      second_world
        \<lparr>heap := (heap second_world)(1 := [(''en;'', JInstance 0)]),
         instances := [(NumberFormat, [JStr ''en''])],
         invocations := [(NumberFormat, [JStr ''en''])]\<rparr>)"
  unfolding formatter_call [OF example_create]
  by (simp add: second_world_eq has_prop_def example_keys store_of_def example_cache_eq
      example_platform_def underlying_args_def arg_def)

lemma second_container_call:
  "formatter NumberFormat second_formatters [JStr ''en'']
     (snd (formatter NumberFormat example_formatters [JStr ''en''] second_world)) =
     (Inr (JInstance 1),
      second_world
        \<lparr>heap := (heap second_world)
                  (1 := [(''en;'', JInstance 0)], 8 := [(''en;'', JInstance 1)]),
         instances := [(NumberFormat, [JStr ''en'']), (NumberFormat, [JStr ''en''])],
         invocations := [(NumberFormat, [JStr ''en'']), (NumberFormat, [JStr ''en''])]\<rparr>)"
  unfolding first_container_call snd_conv formatter_call [OF second_create]
  by (simp add: second_world_eq has_prop_def example_keys store_of_def second_cache_eq
      example_platform_def underlying_args_def arg_def)



section \<open>Memoized formatter constructors\<close>

text \<open>
  Claim C1. For every cache container and every memoized constructor that
  \<open>createFormatters\<close> returns over it: when a call returns an instance, a second call with
  the same argument tuple returns the identical instance and leaves the world as it is, so
  the underlying constructor is not invoked again. Across both calls the underlying
  constructor is invoked exactly once when the tuple's key was not in the store before the
  first call, and not at all when it was.
\<close>

theorem memoized_twice_same_instance:
  assumes "createFormatters serializer platform (Some cache) w0 = (fs, w0')"
      and "formatter c fs args w = (Inr v, w1)"
  shows "formatter c fs args w1 = (Inr v, w1) \<and>
         invocations w1 =
           (if has_prop (heap w (store_of c cache)) (serializer args) then invocations w
            else invocations w @ [(c, underlying_args cache c args)])"
  using assms(2) unfolding formatter_call [OF assms(1)]
  by (auto simp: has_prop_update get_prop_update split: if_splits option.splits)

text \<open>
  The first call of \<open>getNumberFormat('en')\<close> over a fresh container constructs instance 0;
  the second returns instance 0 again.
\<close>

theorem memoized_twice_same_instance_witness:
  "formatter NumberFormat example_formatters [JStr ''en''] example_world =
     (Inr (JInstance 0), warm_world) \<and>
   formatter NumberFormat example_formatters [JStr ''en''] warm_world =
     (Inr (JInstance 0), warm_world) \<and>
   invocations warm_world = invocations example_world @ [(NumberFormat, [JStr ''en''])]"
  using memoized_twice_same_instance [OF example_create example_first_call] example_first_call
  by (simp add: example_world_eq has_prop_def underlying_args_def)

text \<open>
  On a container that already holds the key (here after one earlier call), two further
  calls with the same tuple invoke the underlying constructor zero times, not once.
\<close>

theorem exactly_once_counterexample:
  "\<not> (length (invocations
          (snd (getNumberFormat example_formatters [JStr ''en'']
             (snd (getNumberFormat example_formatters [JStr ''en''] warm_world))))) =
       length (invocations warm_world) + 1)"
proof -
  have "getNumberFormat example_formatters = formatter NumberFormat example_formatters"
    by (simp add: formatter_def)
  then show ?thesis by (simp add: warm_hit)
qed



text \<open>
  Claim C5. A call of a memoized constructor fails with \<open>e\<close> exactly when the key is not
  cached and the underlying constructor throws \<open>e\<close> for the arguments: the exception
  reaches the caller as it is. After such a failure every store is unchanged, and the store
  of that kind has no entry for the tuple's key.
\<close>

theorem error_propagates_and_nothing_is_cached:
  assumes "createFormatters serializer platform (Some cache) w0 = (fs, w0')"
  shows "(fst (formatter c fs args w) = Inl e) =
           (\<not> has_prop (heap w (store_of c cache)) (serializer args) \<and>
            platform c (underlying_args cache c args) = Some e) \<and>
         (fst (formatter c fs args w) = Inl e \<longrightarrow>
            heap (snd (formatter c fs args w)) = heap w \<and>
            \<not> has_prop (heap (snd (formatter c fs args w)) (store_of c cache)) (serializer args))"
  unfolding formatter_call [OF assms]
  by (auto split: option.splits)

text \<open>The rejected locale \<open>xx\<close>.\<close>

theorem error_propagates_and_nothing_is_cached_witness:
  "example_platform NumberFormat (underlying_args example_cache NumberFormat [JStr ''xx'']) =
     Some ''RangeError: Incorrect locale information provided'' \<and>
   fst (formatter NumberFormat example_formatters [JStr ''xx''] warm_world) =
     Inl ''RangeError: Incorrect locale information provided'' \<and>
   heap (snd (formatter NumberFormat example_formatters [JStr ''xx''] warm_world)) =
     heap warm_world \<and>
   \<not> has_prop (heap (snd (formatter NumberFormat example_formatters [JStr ''xx''] warm_world))
          (store_of NumberFormat example_cache)) (example_serializer [JStr ''xx''])"
proof -
  have absent: "\<not> has_prop (heap warm_world (store_of NumberFormat example_cache))
                    (example_serializer [JStr ''xx''])"
    by (simp add: warm_world_eq has_prop_def example_keys store_of_def example_cache_eq)
  have throws: "example_platform NumberFormat
                  (underlying_args example_cache NumberFormat [JStr ''xx'']) =
                Some ''RangeError: Incorrect locale information provided''"
    by (simp add: example_platform_def underlying_args_def arg_def)
  show ?thesis
    using error_propagates_and_nothing_is_cached
      [OF example_create, of NumberFormat "[JStr ''xx'']" warm_world
        "''RangeError: Incorrect locale information provided''"]
      absent throws
    by simp
qed

text \<open>
  Claim C6. A call of the memoized constructor of a kind changes no store other than the
  store of that kind: every other object of the heap is unchanged, and so are the other
  six stores of a container whose stores are seven distinct objects. Every entry that was
  in the store of that kind is still there with the same value: entries are inserted,
  never removed. No object is allocated.
\<close>

theorem mutation_confined_to_own_store:
  assumes "createFormatters serializer platform (Some cache) w0 = (fs, w0')"
      and "formatter c fs args w = (r, w')"
  shows "(\<forall>a. a \<noteq> store_of c cache \<longrightarrow> heap w' a = heap w a) \<and>
         (distinct (stores cache) \<longrightarrow>
            (\<forall>c'. c' \<noteq> c \<longrightarrow> heap w' (store_of c' cache) = heap w (store_of c' cache))) \<and>
         (\<forall>k. has_prop (heap w (store_of c cache)) k \<longrightarrow>
            has_prop (heap w' (store_of c cache)) k \<and>
            get_prop (heap w' (store_of c cache)) k = get_prop (heap w (store_of c cache)) k) \<and>
         next_addr w' = next_addr w"
proof -
  have frame: "\<forall>a. a \<noteq> store_of c cache \<longrightarrow> heap w' a = heap w a"
    using assms(2) unfolding formatter_call [OF assms(1)]
    by (auto split: if_splits option.splits)
  have others: "distinct (stores cache) \<longrightarrow>
      (\<forall>c'. c' \<noteq> c \<longrightarrow> heap w' (store_of c' cache) = heap w (store_of c' cache))"
    using frame store_of_distinct by blast
  have kept: "\<forall>k. has_prop (heap w (store_of c cache)) k \<longrightarrow>
      has_prop (heap w' (store_of c cache)) k \<and>
      get_prop (heap w' (store_of c cache)) k = get_prop (heap w (store_of c cache)) k"
    using assms(2) unfolding formatter_call [OF assms(1)]
    by (auto simp: has_prop_update get_prop_update split: if_splits option.splits)
  have alloc: "next_addr w' = next_addr w"
    using assms(2) unfolding formatter_call [OF assms(1)]
    by (auto split: if_splits option.splits)
  from frame others kept alloc show ?thesis by blast
qed

text \<open>A call with \<open>fr\<close> after the call with \<open>en\<close>.\<close>

theorem mutation_confined_to_own_store_witness:
  "distinct (stores example_cache) \<and>
   has_prop (heap warm_world (store_of NumberFormat example_cache)) ''en;'' \<and>
   has_prop (heap (snd (formatter NumberFormat example_formatters [JStr ''fr''] warm_world))
     (store_of NumberFormat example_cache)) ''en;'' \<and>
   get_prop (heap (snd (formatter NumberFormat example_formatters [JStr ''fr''] warm_world))
     (store_of NumberFormat example_cache)) ''en;'' = JInstance 0 \<and>
   heap (snd (formatter NumberFormat example_formatters [JStr ''fr''] warm_world))
     (store_of DateTimeFormat example_cache) =
     heap warm_world (store_of DateTimeFormat example_cache) \<and>
   heap (snd (formatter NumberFormat example_formatters [JStr ''fr''] warm_world)) 8 =
     heap warm_world 8"
proof -
  have d: "distinct (stores example_cache)"
    by (simp add: stores_def example_cache_eq)
  have h: "has_prop (heap warm_world (store_of NumberFormat example_cache)) ''en;''"
    by (simp add: warm_world_eq has_prop_def store_of_def example_cache_eq)
  have g: "get_prop (heap warm_world (store_of NumberFormat example_cache)) ''en;'' = JInstance 0"
    by (simp add: warm_world_eq get_prop_def store_of_def example_cache_eq)
  have a: "8 \<noteq> store_of NumberFormat example_cache"
    by (simp add: store_of_def example_cache_eq)
  have c: "DateTimeFormat \<noteq> NumberFormat"
    by simp
  show ?thesis
    using mutation_confined_to_own_store [OF example_create fr_call] d h g a c
    by (simp only: fr_call snd_conv) metis
qed

text \<open>
  Claim C7. \<open>createIntlCache\<close> returns a fresh container with seven distinct, empty
  stores, so two containers share no store. After a formatter is requested through the
  formatters over the first container, the second container has no entry for the same
  arguments, and the same request through the formatters over the second container
  invokes the underlying constructor again: it never returns the first container's
  instance.
\<close>

theorem separate_containers_share_nothing:
  assumes "createIntlCache w0 = (cache1, w1)"
      and "createIntlCache w1 = (cache2, w2)"
      and "createFormatters serializer platform (Some cache1) w2 = (fs1, w2')"
      and "createFormatters serializer platform (Some cache2) w2 = (fs2, w2'')"
      and "formatter c fs1 args w2 = (r1, w3)"
      and "formatter c fs2 args w3 = (r2, w4)"
  shows "distinct (stores cache1 @ stores cache2) \<and>
         (\<forall>a \<in> set (stores cache1 @ stores cache2). heap w2 a = []) \<and>
         \<not> has_prop (heap w3 (store_of c cache2)) (serializer args) \<and>
         invocations w4 =
           invocations w0 @
             [(c, underlying_args cache1 c args), (c, underlying_args cache2 c args)] \<and>
         (\<forall>v. r1 = Inr v \<longrightarrow> r2 \<noteq> Inr v)"
proof -
  let ?n = "next_addr w0"
  have c1: "cache1 = fst (createIntlCache w0)" and w1: "w1 = snd (createIntlCache w0)"
    using assms(1) by simp_all
  have c2: "cache2 = fst (createIntlCache w1)" and w2: "w2 = snd (createIntlCache w1)"
    using assms(2) by simp_all
  have n1: "next_addr w1 = ?n + 7"
    by (simp add: w1 createIntlCache_world)
  have s1: "stores cache1 = map (\<lambda>i. ?n + i) [0, 1, 2, 3, 4, 5, 6]"
    by (simp only: c1 createIntlCache_stores)
  have s2: "stores cache2 = map (\<lambda>i. ?n + 7 + i) [0, 1, 2, 3, 4, 5, 6]"
    by (simp only: c2 createIntlCache_stores n1)
  have dist: "distinct (stores cache1 @ stores cache2)"
    unfolding s1 s2 by simp
  have r1: "?n \<le> store_of c cache1 \<and> store_of c cache1 < ?n + 7"
    unfolding c1 by (rule createIntlCache_store_range)
  have r2: "?n + 7 \<le> store_of c cache2 \<and> store_of c cache2 < ?n + 14"
    using createIntlCache_store_range [of w1 c] by (simp add: c2 n1)
  have h2: "heap w2 a = (if ?n \<le> a \<and> a < ?n + 14 then [] else heap w0 a)" for a
    by (simp add: w2 w1 createIntlCache_world)
  have empty: "\<forall>a \<in> set (stores cache1 @ stores cache2). heap w2 a = []"
    unfolding s1 s2 by (simp add: h2)
  have i2: "invocations w2 = invocations w0"
    by (simp add: w2 w1 createIntlCache_world)
  have e1: "\<not> has_prop (heap w2 (store_of c cache1)) k" for k
    using r1 by (simp add: h2 has_prop_def)
  have e2: "\<not> has_prop (heap w2 (store_of c cache2)) k" for k
    using r2 by (simp add: h2 has_prop_def)
  have ne: "store_of c cache2 \<noteq> store_of c cache1"
    using r1 r2 by simp
  have first:
    "heap w3 (store_of c cache2) = heap w2 (store_of c cache2) \<and>
     invocations w3 = invocations w2 @ [(c, underlying_args cache1 c args)] \<and>
     (\<forall>v. r1 = Inr v \<longrightarrow> v = JInstance (length (instances w2)) \<and>
        length (instances w3) = Suc (length (instances w2)))"
    using assms(5) ne unfolding formatter_call [OF assms(3)]
    by (auto simp: e1 split: option.splits)
  then have e3: "\<not> has_prop (heap w3 (store_of c cache2)) (serializer args)"
    by (simp add: e2)
  have second:
    "invocations w4 = invocations w3 @ [(c, underlying_args cache2 c args)] \<and>
     (\<forall>v. r2 = Inr v \<longrightarrow> v = JInstance (length (instances w3)))"
    using assms(6) unfolding formatter_call [OF assms(4)]
    by (auto simp: e3 split: option.splits)
  have fresh: "\<forall>v. r1 = Inr v \<longrightarrow> r2 \<noteq> Inr v"
    using first second by auto
  from dist empty e3 first second fresh i2 show ?thesis by simp
qed

text \<open>The two example containers: the second request constructs instance 1.\<close>

theorem separate_containers_share_nothing_witness:
  "createIntlCache empty_world = (example_cache, example_world) \<and>
   createIntlCache example_world = (second_cache, second_world) \<and>
   distinct (stores example_cache @ stores second_cache) \<and>
   fst (formatter NumberFormat example_formatters [JStr ''en''] second_world) =
     Inr (JInstance 0) \<and>
   fst (formatter NumberFormat second_formatters [JStr ''en'']
          (snd (formatter NumberFormat example_formatters [JStr ''en''] second_world))) =
     Inr (JInstance 1) \<and>
   invocations (snd (formatter NumberFormat second_formatters [JStr ''en'']
          (snd (formatter NumberFormat example_formatters [JStr ''en''] second_world)))) =
     [(NumberFormat, [JStr ''en'']), (NumberFormat, [JStr ''en''])]"
proof -
  have c1: "createIntlCache empty_world = (example_cache, example_world)"
    by (simp add: example_cache_def example_world_def)
  have c2: "createIntlCache example_world = (second_cache, second_world)"
    by (simp add: second_cache_def second_world_def)
  have r1: "fst (formatter NumberFormat example_formatters [JStr ''en''] second_world) =
              Inr (JInstance 0)"
    by (simp only: first_container_call fst_conv)
  have r2: "fst (formatter NumberFormat second_formatters [JStr ''en'']
                   (snd (formatter NumberFormat example_formatters [JStr ''en''] second_world))) =
              Inr (JInstance 1)"
    by (simp only: second_container_call fst_conv)
  have log: "invocations (snd (formatter NumberFormat second_formatters [JStr ''en'']
                   (snd (formatter NumberFormat example_formatters [JStr ''en''] second_world)))) =
              [(NumberFormat, [JStr ''en'']), (NumberFormat, [JStr ''en''])]"
    by (simp only: second_container_call snd_conv) simp
  show ?thesis
    using separate_containers_share_nothing
      [OF c1 c2 example_create second_create surjective_pairing surjective_pairing,
        of NumberFormat "[JStr ''en'']"]
      c1 c2 r1 r2 log
    by blast
qed



end
